theory Spec2Isabelle
  imports Complex_Main "HOL-Library.Sublist" "HOL-Library.AList"
begin

section \<open>The generic mapper of nansat: \<^verbatim>\<open>mappers/mapper_generic.py\<close>\<close>

text \<open>
  A shallow embedding of \<^verbatim>\<open>Mapper.__init__\<close>, \<^verbatim>\<open>Mapper.repare_projection\<close> and
  \<^verbatim>\<open>Mapper.add_gcps_from_metadata\<close>. Python exceptions are values of the type
  \<open>error\<close>; a function that can raise returns \<open>error + 'a\<close>. A Python \<^verbatim>\<open>dict\<close> with
  string keys is an association list with distinct keys, iterated in list order.
\<close>

subsection \<open>Python strings and dictionaries\<close>

datatype error =
    KeyError string
  | IndexError
  | ValueError string
  | UnboundLocalError string
  | AttributeError string

type_synonym 'v dict = "(string \<times> 'v) list"

text \<open>\<^verbatim>\<open>d.get(k, default)\<close>\<close>

definition dict_get :: "'v dict \<Rightarrow> string \<Rightarrow> 'v \<Rightarrow> 'v" where
  "dict_get d k dflt = (case map_of d k of None \<Rightarrow> dflt | Some v \<Rightarrow> v)"

text \<open>\<^verbatim>\<open>d[k]\<close>, which raises \<^verbatim>\<open>KeyError\<close> on a missing key\<close>

definition dict_item :: "'v dict \<Rightarrow> string \<Rightarrow> error + 'v" where
  "dict_item d k = (case map_of d k of None \<Rightarrow> Inl (KeyError k) | Some v \<Rightarrow> Inr v)"

text \<open>\<^verbatim>\<open>k in d\<close>\<close>

definition dict_has :: "'v dict \<Rightarrow> string \<Rightarrow> bool" where
  "dict_has d k = (map_of d k \<noteq> None)"

text \<open>
  \<^verbatim>\<open>s.split(sep)\<close> for a non-empty separator: the pieces between the
  non-overlapping occurrences of \<open>sep\<close>, found from the left.
\<close>

function py_split :: "string \<Rightarrow> string \<Rightarrow> string list" where
  "py_split sep [] = [[]]"
| "py_split sep (c # cs) =
     (if sep \<noteq> [] \<and> prefix sep (c # cs)
      then [] # py_split sep (drop (length sep) (c # cs))
      else (case py_split sep cs of
              [] \<Rightarrow> [[c]]
            | p # ps \<Rightarrow> (c # p) # ps))"
  by pat_completeness auto
termination
  by (relation "measure (\<lambda>(sep, s). length s)") (auto simp: neq_Nil_conv)

text \<open>\<^verbatim>\<open>xs[1]\<close> on a list, \<open>None\<close> standing for the \<^verbatim>\<open>IndexError\<close>\<close>

fun item1 :: "'a list \<Rightarrow> 'a option" where
  "item1 (a # b # rest) = Some b"
| "item1 xs = None"

text \<open>\<^verbatim>\<open>s.replace(old, new)\<close> for one-character \<open>old\<close> and \<open>new\<close>\<close>

definition str_replace :: "char \<Rightarrow> char \<Rightarrow> string \<Rightarrow> string" where
  "str_replace old new s = map (\<lambda>c. if c = old then new else c) s"

subsection \<open>Numbers read from metadata strings\<close>

text \<open>
  A Python \<^verbatim>\<open>float\<close> is modelled by the exact value of the decimal text it was read
  from (rounding to binary64 is outside the model), or by one of the special values.
\<close>

datatype pyfloat = Finite rat | Infinity bool | NaN

definition is_space :: "char \<Rightarrow> bool" where
  "is_space c = (c \<in> set [CHR '' '', CHR 0x09, CHR 0x0A, CHR 0x0B, CHR 0x0C, CHR 0x0D])"

text \<open>\<^verbatim>\<open>s.strip()\<close>\<close>

definition py_strip :: "string \<Rightarrow> string" where
  "py_strip s = rev (dropWhile is_space (rev (dropWhile is_space s)))"

definition is_digit :: "char \<Rightarrow> bool" where
  "is_digit c = (c \<in> set ''0123456789'')"

definition digit_val :: "char \<Rightarrow> nat" where
  "digit_val c = of_char c - 48"

definition digits_val :: "string \<Rightarrow> nat" where
  "digits_val s = foldl (\<lambda>a c. 10 * a + digit_val c) 0 s"

fun split_sign :: "string \<Rightarrow> bool \<times> string" where
  "split_sign [] = (False, [])"
| "split_sign (c # cs) =
     (if c = CHR ''-'' then (True, cs) else if c = CHR ''+'' then (False, cs) else (False, c # cs))"

text \<open>digits with an optional point: \<^verbatim>\<open>12\<close>, \<^verbatim>\<open>12.\<close>, \<^verbatim>\<open>12.5\<close>, \<^verbatim>\<open>.5\<close>\<close>

definition parse_mantissa :: "string \<Rightarrow> rat option" where
  "parse_mantissa s =
     (let ip = takeWhile is_digit s; r = dropWhile is_digit s in
      case r of
        [] \<Rightarrow> if ip = [] then None else Some (of_nat (digits_val ip))
      | c # fp \<Rightarrow>
          if c = CHR ''.'' \<and> list_all is_digit fp \<and> (ip \<noteq> [] \<or> fp \<noteq> [])
          then Some (of_nat (digits_val (ip @ fp)) / 10 ^ length fp)
          else None)"

definition is_exp_mark :: "char \<Rightarrow> bool" where
  "is_exp_mark c = (c = CHR ''e'' \<or> c = CHR ''E'')"

definition parse_unsigned :: "string \<Rightarrow> rat option" where
  "parse_unsigned u =
     (case parse_mantissa (takeWhile (\<lambda>c. \<not> is_exp_mark c) u) of
        None \<Rightarrow> None
      | Some q \<Rightarrow>
          (case dropWhile (\<lambda>c. \<not> is_exp_mark c) u of
             [] \<Rightarrow> Some q
           | m # ex \<Rightarrow>
               (case split_sign ex of (eneg, ed) \<Rightarrow>
                  if ed \<noteq> [] \<and> list_all is_digit ed
                  then Some (if eneg then q / 10 ^ digits_val ed else q * 10 ^ digits_val ed)
                  else None)))"

definition lower_char :: "char \<Rightarrow> char" where
  "lower_char c =
     (if 65 \<le> (of_char c :: nat) \<and> (of_char c :: nat) \<le> 90
      then char_of (of_char c + (32 :: nat)) else c)"

text \<open>
  \<^verbatim>\<open>float(x)\<close> on a string: surrounding whitespace is ignored, then a signed decimal
  number with an optional exponent, or \<^verbatim>\<open>inf\<close>, \<^verbatim>\<open>infinity\<close>, \<^verbatim>\<open>nan\<close> in any case;
  anything else raises \<^verbatim>\<open>ValueError\<close>.
\<close>

definition py_float :: "string \<Rightarrow> error + pyfloat" where
  "py_float x =
     (case split_sign (py_strip x) of (neg, u) \<Rightarrow>
        if map lower_char u = ''inf'' \<or> map lower_char u = ''infinity'' then Inr (Infinity (\<not> neg))
        else if map lower_char u = ''nan'' then Inr NaN
        else (case parse_unsigned u of
                None \<Rightarrow> Inl (ValueError x)
              | Some q \<Rightarrow> Inr (Finite (if neg then - q else q))))"

text \<open>\<^verbatim>\<open>'%03d' % n\<close> for a natural number\<close>

fun dec_str :: "nat \<Rightarrow> string" where
  "dec_str n = (if n < 10 then [char_of (48 + n)] else dec_str (n div 10) @ [char_of (48 + n mod 10)])"

declare dec_str.simps [simp del]

definition pad3 :: "nat \<Rightarrow> string" where
  "pad3 n = replicate (3 - length (dec_str n)) (CHR ''0'') @ dec_str n"

subsection \<open>The raster engine and the container\<close>

text \<open>
  What \<^verbatim>\<open>gdal.Open\<close> returns: the sizes, the bands (\<^verbatim>\<open>RasterCount\<close> is their number,
  \<^verbatim>\<open>GetRasterBand(i + 1)\<close> the \<open>i\<close>-th of them), the projection, the number of native
  GCPs and the native geotransform (empty when none is set).
\<close>

record Band =
  Metadata_Dict :: "string dict"
  BandDataType :: int

record Dataset =
  RasterXSize :: int
  RasterYSize :: int
  RasterBands :: "Band list"
  Projection :: string
  GCPCount :: nat
  GeoTransform :: "rat list"

record GCP =
  GCPX :: pyfloat
  GCPY :: pyfloat
  GCPZ :: pyfloat
  GCPPixel :: pyfloat
  GCPLine :: pyfloat

text \<open>The \<^verbatim>\<open>src\<close> dictionary of a band; an optional key is an \<open>option\<close>.\<close>

record Src =
  SourceFilename :: string
  SourceBand :: nat
  ScaleRatio :: "string option"
  ScaleOffset :: "string option"
  DataType :: int

record BandDesc =
  src :: Src
  dst :: "string dict"

text \<open>
  Modelled from the spec: the class \<^verbatim>\<open>VRT\<close> of \<^verbatim>\<open>vrt.py\<close>, which is not among the
  sources. It is the container that stores the source metadata, the bands, the
  projection, the GCPs with their projection, the geotransform and the
  geolocation-array reference; each of its methods called by the mapper stores its
  argument in the field of that name.
\<close>

record VRT =
  srcMetadata :: "string dict"
  bands :: "BandDesc list"
  vrtProjection :: string
  vrtGCPs :: "GCP list"
  vrtGCPProjection :: string
  vrtGeoTransform :: "rat list"
  geolocationArray :: "(string \<times> string) option"

text \<open>
  Modelled from the spec: \<^verbatim>\<open>VRT.__init__(self, firstSubDataset, srcMetadata)\<close> makes an
  empty container on the geometry of the reference grid: it takes over the native
  geotransform and has no bands, no geolocation array and no GCPs installed by the
  mapper (the native ones are seen through \<^verbatim>\<open>GetGCPCount\<close> of the reference grid).
\<close>

definition VRT_init :: "Dataset \<Rightarrow> string dict \<Rightarrow> VRT" where
  "VRT_init firstSubDataset md =
     \<lparr>srcMetadata = md, bands = [], vrtProjection = Projection firstSubDataset,
      vrtGCPs = [], vrtGCPProjection = [], vrtGeoTransform = GeoTransform firstSubDataset,
      geolocationArray = None\<rparr>"

text \<open>Modelled from the spec: \<^verbatim>\<open>VRT._create_bands(metaDict)\<close> (\<open>createBands\<close>)\<close>

definition create_bands :: "BandDesc list \<Rightarrow> VRT \<Rightarrow> VRT" where
  "create_bands metaDict self = self\<lparr>bands := bands self @ metaDict\<rparr>"

text \<open>Modelled from the spec: \<^verbatim>\<open>dataset.SetProjection(wkt)\<close>\<close>

definition SetProjection :: "string \<Rightarrow> VRT \<Rightarrow> VRT" where
  "SetProjection wkt self = self\<lparr>vrtProjection := wkt\<rparr>"

text \<open>Modelled from the spec: \<^verbatim>\<open>dataset.SetGCPs(gcps, projection)\<close>\<close>

definition SetGCPs :: "GCP list \<Rightarrow> string \<Rightarrow> VRT \<Rightarrow> VRT" where
  "SetGCPs gcps wkt self = self\<lparr>vrtGCPs := gcps, vrtGCPProjection := wkt\<rparr>"

text \<open>Modelled from the spec: \<^verbatim>\<open>VRT._remove_geotransform()\<close> clears the geotransform.\<close>

definition remove_geotransform :: "VRT \<Rightarrow> VRT" where
  "remove_geotransform self = self\<lparr>vrtGeoTransform := []\<rparr>"

text \<open>Modelled from the spec: \<^verbatim>\<open>dataset.SetGeoTransform(t)\<close>\<close>

definition SetGeoTransform :: "rat list \<Rightarrow> VRT \<Rightarrow> VRT" where
  "SetGeoTransform t self = self\<lparr>vrtGeoTransform := t\<rparr>"

text \<open>
  Modelled from the spec: \<^verbatim>\<open>VRT.add_geolocationArray(GeolocationArray(x, y))\<close>
  (\<open>setGeolocationArray\<close>)
\<close>

definition add_geolocationArray :: "string \<Rightarrow> string \<Rightarrow> VRT \<Rightarrow> VRT" where
  "add_geolocationArray x y self = self\<lparr>geolocationArray := Some (x, y)\<rparr>"

text \<open>
  What the mapper takes from its surroundings: \<^verbatim>\<open>gdal.Open\<close> (\<open>None\<close> when the file
  cannot be opened), Python's \<^verbatim>\<open>eval\<close> on the geotransform text, and
  \<^verbatim>\<open>latlongSRS.ExportToWkt()\<close>.
\<close>

record Env =
  gdal_Open :: "string \<Rightarrow> Dataset option"
  py_eval :: "string \<Rightarrow> error + rat list"
  latlongWkt :: string

subsection \<open>Metadata normalisation (lines 15 to 27)\<close>

text \<open>
  One pass of the loop over \<^verbatim>\<open>gdalMetadata.keys()\<close>. The bare \<^verbatim>\<open>except\<close> catches the
  \<^verbatim>\<open>IndexError\<close> of either \<^verbatim>\<open>split(...)[1]\<close>; the assignment to \<^verbatim>\<open>tmp\<close> made before the
  second one stays.
\<close>

definition normalize_key ::
  "string dict \<times> string dict \<Rightarrow> string \<times> string \<Rightarrow> string dict \<times> string dict" where
  "normalize_key st kv =
     (case st of (tmp, geoMetadata) \<Rightarrow>
      case kv of (key, val) \<Rightarrow>
        (case item1 (py_split ''NC_GLOBAL#GDAL_'' key) of
           None \<Rightarrow> (tmp, geoMetadata)
         | Some k \<Rightarrow>
             (let tmp1 = AList.update k val tmp in
              if sublist ''NANSAT'' key then
                (case item1 (py_split ''NC_GLOBAL#GDAL_NANSAT_'' key) of
                   None \<Rightarrow> (tmp1, geoMetadata)
                 | Some g \<Rightarrow> (AList.delete k tmp1, AList.update g val geoMetadata))
              else (tmp1, geoMetadata))))"

definition normalize_metadata :: "string dict \<Rightarrow> string dict \<times> string dict" where
  "normalize_metadata gdalMetadata = foldl normalize_key ([], []) gdalMetadata"

subsection \<open>Projection repair (lines 142 to 144)\<close>

definition repare_projection :: "string \<Rightarrow> string" where
  "repare_projection projection =
     str_replace (CHR ''&'') (CHR 0x22) (str_replace (CHR ''|'') (CHR '','') projection)"

subsection \<open>GCPs from metadata (lines 146 to 185)\<close>

text \<open>Sequencing of calls that may raise: the first exception ends the computation.\<close>

definition ebind :: "error + 'a \<Rightarrow> ('a \<Rightarrow> error + 'b) \<Rightarrow> error + 'b" where
  "ebind m f = (case m of Inl e \<Rightarrow> Inl e | Inr x \<Rightarrow> f x)"

text \<open>\<^verbatim>\<open>xs[i]\<close> for \<open>i \<ge> 0\<close>, which raises \<^verbatim>\<open>IndexError\<close> out of range\<close>

definition list_item :: "'a list \<Rightarrow> nat \<Rightarrow> error + 'a" where
  "list_item xs i = (if i < length xs then Inr (xs ! i) else Inl IndexError)"

definition gcpNames :: "string list" where
  "gcpNames = [''GCPPixel'', ''GCPLine'', ''GCPX'', ''GCPY'']"

text \<open>The scan of lines 153 to 156: how many keys contain the name.\<close>

definition gcpLineCount :: "string \<Rightarrow> string dict \<Rightarrow> nat" where
  "gcpLineCount gcpName geoMetadata =
     length (filter (\<lambda>metaDataItem. sublist gcpName metaDataItem) (map fst geoMetadata))"

text \<open>\<^verbatim>\<open>'%s_%03d' % (gcpName, n)\<close>\<close>

definition gcpLineName :: "string \<Rightarrow> nat \<Rightarrow> string" where
  "gcpLineName gcpName n = gcpName @ ''_'' @ pad3 n"

text \<open>The loop of lines 159 to 161 over the remaining indices \<open>ns\<close>.\<close>

fun concat_lines :: "string \<Rightarrow> string dict \<Rightarrow> nat list \<Rightarrow> string \<Rightarrow> error + string" where
  "concat_lines gcpName geoMetadata [] gcpString = Inr gcpString"
| "concat_lines gcpName geoMetadata (n # ns) gcpString =
     ebind (dict_item geoMetadata (gcpLineName gcpName n))
       (\<lambda>line. concat_lines gcpName geoMetadata ns (gcpString @ line))"

text \<open>The loop of lines 166 to 168 over the remaining tokens.\<close>

fun parse_values :: "string list \<Rightarrow> pyfloat list \<Rightarrow> error + pyfloat list" where
  "parse_values [] gcpValues = Inr gcpValues"
| "parse_values (x # xs) gcpValues =
     (if length x > 0
      then ebind (py_float x) (\<lambda>v. parse_values xs (gcpValues @ [v]))
      else parse_values xs gcpValues)"

text \<open>One pass of the loop over \<^verbatim>\<open>gcpNames\<close> (lines 152 to 170): the values of one series.\<close>

definition gcp_series :: "string \<Rightarrow> string dict \<Rightarrow> error + pyfloat list" where
  "gcp_series gcpName geoMetadata =
     ebind (concat_lines gcpName geoMetadata [0..<gcpLineCount gcpName geoMetadata] [])
       (\<lambda>gcpString.
          parse_values (py_split ''|'' (filter (\<lambda>c. c \<noteq> CHR '' '') (py_strip gcpString))) [])"

fun all_series :: "string list \<Rightarrow> string dict \<Rightarrow> pyfloat list list \<Rightarrow> error + pyfloat list list" where
  "all_series [] geoMetadata gcpAllValues = Inr gcpAllValues"
| "all_series (gcpName # names) geoMetadata gcpAllValues =
     ebind (gcp_series gcpName geoMetadata)
       (\<lambda>gcpValues. all_series names geoMetadata (gcpAllValues @ [gcpValues]))"

text \<open>The loop of lines 174 to 176 over the remaining indices.\<close>

fun make_gcps :: "pyfloat list list \<Rightarrow> nat list \<Rightarrow> GCP list \<Rightarrow> error + GCP list" where
  "make_gcps gcpAllValues [] gcps = Inr gcps"
| "make_gcps gcpAllValues (i # rest) gcps =
     ebind (ebind (list_item gcpAllValues 2) (\<lambda>s. list_item s i)) (\<lambda>x.
     ebind (ebind (list_item gcpAllValues 3) (\<lambda>s. list_item s i)) (\<lambda>y.
     ebind (ebind (list_item gcpAllValues 0) (\<lambda>s. list_item s i)) (\<lambda>pixel.
     ebind (ebind (list_item gcpAllValues 1) (\<lambda>s. list_item s i)) (\<lambda>line.
       make_gcps gcpAllValues rest
         (gcps @ [\<lparr>GCPX = x, GCPY = y, GCPZ = Finite 0, GCPPixel = pixel, GCPLine = line\<rparr>])))))"

text \<open>The method returns the number of GCPs; the model returns the container with it.\<close>

definition add_gcps_from_metadata :: "VRT \<Rightarrow> string dict \<Rightarrow> error + VRT \<times> nat" where
  "add_gcps_from_metadata self geoMetadata =
     ebind (all_series gcpNames geoMetadata []) (\<lambda>gcpAllValues.
     ebind (list_item gcpAllValues 0) (\<lambda>first.
     ebind (make_gcps gcpAllValues [0..<length first] []) (\<lambda>gcps.
       Inr (if length gcps > 0
            then remove_geotransform
                   (SetGCPs gcps (repare_projection (dict_get geoMetadata ''GCPProjection'' '''')) self)
            else self,
            length gcps))))"

subsection \<open>The scan of the subdatasets (lines 29 to 105)\<close>

definition rmMetadatas :: "string list" where
  "rmMetadatas =
     [''NETCDF_VARNAME'', ''_FillValue'', ''_Unsigned'', ''ScaleRatio'', ''ScaleOffset'',
      ''dods_variable'']"

text \<open>
  The body of the loop over the bands (lines 65 to 105). \<^verbatim>\<open>dst\<close> is the dictionary
  \<^verbatim>\<open>bandMetadata\<close> itself, so the lookups after line 92 see the \<^verbatim>\<open>wkv\<close> entry.
\<close>

definition band_desc :: "string \<Rightarrow> nat \<Rightarrow> Band \<Rightarrow> BandDesc" where
  "band_desc fileName iBand subBand =
     (let bandMetadata0 = Metadata_Dict subBand;
          bandMetadata =
            (if dict_has bandMetadata0 ''PixelFunctionType''
             then AList.delete ''PixelFunctionType'' bandMetadata0 else bandMetadata0);
          sourceBands = iBand + 1;
          scaleRatio = dict_get bandMetadata ''ScaleRatio''
                         (dict_get bandMetadata ''scale''
                           (dict_get bandMetadata ''scale_factor'' ''''));
          scaleOffset = dict_get bandMetadata ''ScaleOffset''
                          (dict_get bandMetadata ''offset''
                            (dict_get bandMetadata ''add_offset'' ''''));
          srcD = \<lparr>SourceFilename = fileName, SourceBand = sourceBands,
                  ScaleRatio = (if length scaleRatio > 0 then Some scaleRatio else None),
                  ScaleOffset = (if length scaleOffset > 0 then Some scaleOffset else None),
                  DataType = BandDataType subBand\<rparr>;
          dst1 = AList.update ''wkv'' (dict_get bandMetadata ''standard_name'' '''') bandMetadata;
          bandName0 = dict_get dst1 ''NETCDF_VARNAME'' '''';
          bandName = (if length bandName0 = 0 then dict_get dst1 ''dods_variable'' '''' else bandName0);
          dst2 = (if length bandName > 0 then AList.update ''name'' bandName dst1 else dst1);
          dst3 = foldl (\<lambda>d rmMetadata. if dict_has d rmMetadata then AList.delete rmMetadata d else d)
                   dst2 rmMetadatas
      in \<lparr>src = srcD, dst = dst3\<rparr>)"

text \<open>
  The local variables of the loop over \<^verbatim>\<open>fileNames\<close>; \<open>None\<close> is a variable that has
  not been assigned yet.
\<close>

record Scan =
  metaDict :: "BandDesc list"
  xDatasetSource :: string
  yDatasetSource :: string
  firstXSize :: int
  firstYSize :: int
  firstSubDataset :: "Dataset option"
  projection :: "string option"

definition scan_init :: Scan where
  "scan_init =
     \<lparr>metaDict = [], xDatasetSource = '''', yDatasetSource = '''', firstXSize = 0,
      firstYSize = 0, firstSubDataset = None, projection = None\<rparr>"

definition is_x_name :: "string \<Rightarrow> bool" where
  "is_x_name fileName =
     (sublist ''GEOLOCATION_X_DATASET'' fileName \<or> sublist ''longitude'' fileName)"

definition is_y_name :: "string \<Rightarrow> bool" where
  "is_y_name fileName =
     (sublist ''GEOLOCATION_Y_DATASET'' fileName \<or> sublist ''latitude'' fileName)"

text \<open>Lines 32 to 36: the names of the subdatasets, or the file itself when there are none.\<close>

definition fileNames_of :: "string \<Rightarrow> (string \<times> string) list \<Rightarrow> string list" where
  "fileNames_of fileName subDatasets =
     (if length subDatasets = 0 then [fileName] else map fst subDatasets)"

text \<open>A subdataset with a grid: both sizes exceed one (line 49).\<close>

definition has_grid :: "Dataset \<Rightarrow> bool" where
  "has_grid d = (RasterXSize d > 1 \<and> RasterYSize d > 1)"

text \<open>Lines 48 to 54: the first subdataset with a grid.\<close>

definition choose_first :: "Scan \<Rightarrow> Dataset \<Rightarrow> Scan" where
  "choose_first st subDataset =
     (if firstXSize st = 0 \<and> firstYSize st = 0 \<and>
         RasterXSize subDataset > 1 \<and> RasterYSize subDataset > 1
      then st\<lparr>firstXSize := RasterXSize subDataset, firstYSize := RasterYSize subDataset,
              firstSubDataset := Some subDataset, projection := Some (Projection subDataset)\<rparr>
      else st)"

text \<open>Lines 57 and 58: the sizes are those of the first grid.\<close>

definition same_size :: "Scan \<Rightarrow> Dataset \<Rightarrow> bool" where
  "same_size st subDataset =
     (RasterXSize subDataset = firstXSize st \<and> RasterYSize subDataset = firstYSize st)"

text \<open>
  One pass of the loop over \<^verbatim>\<open>fileNames\<close> (lines 46 to 105). When \<^verbatim>\<open>gdal.Open\<close>
  returns \<^verbatim>\<open>None\<close>, reading \<^verbatim>\<open>RasterXSize\<close> raises \<^verbatim>\<open>AttributeError\<close>.
\<close>

definition scan_file :: "Env \<Rightarrow> Scan \<Rightarrow> string \<Rightarrow> error + Scan" where
  "scan_file env st fileName =
     (case gdal_Open env fileName of
        None \<Rightarrow> Inl (AttributeError ''RasterXSize'')
      | Some subDataset \<Rightarrow>
          (let st1 = choose_first st subDataset in
           Inr (if same_size st1 subDataset then
                  (if is_x_name fileName then st1\<lparr>xDatasetSource := fileName\<rparr>
                   else if is_y_name fileName then st1\<lparr>yDatasetSource := fileName\<rparr>
                   else st1\<lparr>metaDict := metaDict st1 @
                          map (\<lambda>(iBand, subBand). band_desc fileName iBand subBand)
                            (enumerate 0 (RasterBands subDataset))\<rparr>)
                else st1)))"

fun scan_files :: "Env \<Rightarrow> Scan \<Rightarrow> string list \<Rightarrow> error + Scan" where
  "scan_files env st [] = Inr st"
| "scan_files env st (fileName # rest) =
     ebind (scan_file env st fileName) (\<lambda>st1. scan_files env st1 rest)"

subsection \<open>Projection and geolocation (lines 107 to 140)\<close>

text \<open>Lines 113 to 122.\<close>

definition resolve_projection :: "Env \<Rightarrow> string \<Rightarrow> string dict \<Rightarrow> VRT \<Rightarrow> VRT" where
  "resolve_projection env projection0 geoMetadata self =
     (let projection1 = (if length projection0 = 0
                         then dict_get geoMetadata ''GCPProjection'' '''' else projection0);
          projection2 = (if length projection1 = 0 then latlongWkt env else projection1)
      in SetProjection (repare_projection projection2) self)"

text \<open>Lines 124 to 140.\<close>

definition resolve_geolocation ::
  "Env \<Rightarrow> Dataset \<Rightarrow> string dict \<Rightarrow> string \<Rightarrow> string \<Rightarrow> VRT \<Rightarrow> error + VRT" where
  "resolve_geolocation env first geoMetadata xSource ySource self =
     ebind (if GCPCount first = 0 then add_gcps_from_metadata self geoMetadata
            else Inr (self, GCPCount first))
       (\<lambda>(self1, gcpCount).
          if length xSource > 0 \<and> length ySource > 0
          then Inr (add_geolocationArray xSource ySource self1)
          else if gcpCount = 0 then
            (let geoTransform = vrtGeoTransform self1 in
             if length geoTransform = 0 then
               ebind (py_eval env (str_replace (CHR ''|'') (CHR '','')
                        (dict_get geoMetadata ''GeoTransform'' ''(0|1|0|0|0|0|1)'')))
                 (\<lambda>geoTransform1. Inr (SetGeoTransform geoTransform1 self1))
             else Inr self1)
          else Inr self1)"

text \<open>
  \<^verbatim>\<open>Mapper.__init__(self, fileName, gdalDataset, gdalMetadata)\<close>; \<open>subDatasets\<close> is
  what \<^verbatim>\<open>gdalDataset.GetSubDatasets()\<close> returns, pairs of a name and a description.
  The result is the container, or the exception that leaves the constructor.
\<close>

definition Mapper_init ::
  "Env \<Rightarrow> string \<Rightarrow> (string \<times> string) list \<Rightarrow> string dict \<Rightarrow> error + VRT" where
  "Mapper_init env fileName subDatasets gdalMetadata0 =
     (case normalize_metadata gdalMetadata0 of (gdalMetadata, geoMetadata) \<Rightarrow>
        (let fileNames = fileNames_of fileName subDatasets in
         ebind (scan_files env scan_init fileNames) (\<lambda>st.
           case firstSubDataset st of
             None \<Rightarrow> Inl (UnboundLocalError ''firstSubDataset'')
           | Some first \<Rightarrow>
               (case projection st of
                  None \<Rightarrow> Inl (UnboundLocalError ''projection'')
                | Some projection0 \<Rightarrow>
                    resolve_geolocation env first geoMetadata
                      (xDatasetSource st) (yDatasetSource st)
                      (resolve_projection env projection0 geoMetadata
                        (create_bands (metaDict st) (VRT_init first gdalMetadata)))))))"

text \<open>
  An evaluator for the texts the geotransform field carries, a parenthesised tuple of
  decimal numbers; it stands for \<^verbatim>\<open>eval\<close> where the mapper is evaluated on an input.
  Any other text is reported as a \<^verbatim>\<open>ValueError\<close> of that text.
\<close>

definition eval_number :: "string \<Rightarrow> rat option" where
  "eval_number t =
     (case split_sign (py_strip t) of (neg, u) \<Rightarrow>
        map_option (\<lambda>q. if neg then - q else q) (parse_unsigned u))"

definition eval_tuple :: "string \<Rightarrow> error + rat list" where
  "eval_tuple t =
     (let s = py_strip t in
      if s \<noteq> [] \<and> hd s = CHR ''('' \<and> last s = CHR '')'' \<and>
         list_all (\<lambda>x. eval_number x \<noteq> None) (py_split '','' (butlast (tl s)))
      then Inr (map (\<lambda>x. case eval_number x of None \<Rightarrow> 0 | Some q \<Rightarrow> q)
                  (py_split '','' (butlast (tl s))))
      else Inl (ValueError t))"

text \<open>The GCP that line 175 builds at index \<open>i\<close> of the four series.\<close>

definition gcp_at ::
  "pyfloat list \<Rightarrow> pyfloat list \<Rightarrow> pyfloat list \<Rightarrow> pyfloat list \<Rightarrow> nat \<Rightarrow> GCP" where
  "gcp_at ps ls xs ys i =
     \<lparr>GCPX = xs ! i, GCPY = ys ! i, GCPZ = Finite 0, GCPPixel = ps ! i, GCPLine = ls ! i\<rparr>"

subsection \<open>Inputs on which the mapper is evaluated\<close>

text \<open>A reference grid of two by two pixels with one band and no native geolocation.\<close>

definition example_grid :: Dataset where
  "example_grid =
     \<lparr>RasterXSize = 2, RasterYSize = 2,
      RasterBands = [\<lparr>Metadata_Dict = [], BandDataType = 6\<rparr>],
      Projection = '''', GCPCount = 0, GeoTransform = []\<rparr>"

definition example_vrt :: VRT where
  "example_vrt = VRT_init example_grid []"

text \<open>
  Geo-metadata whose GCP series disagree: a line series shorter than the pixel series,
  a pixel series shorter than the others, and a pixel series with a token that is no
  number.
\<close>

definition gcps_short_line :: "string dict" where
  "gcps_short_line =
     [(''GCPPixel_000'', ''1|2''), (''GCPLine_000'', ''1''),
      (''GCPX_000'', ''10.0|20.0''), (''GCPY_000'', ''5.0|6.0'')]"

definition gcps_short_pixel :: "string dict" where
  "gcps_short_pixel =
     [(''GCPPixel_000'', ''1''), (''GCPLine_000'', ''1|2''),
      (''GCPX_000'', ''10.0|20.0''), (''GCPY_000'', ''5.0|6.0'')]"

definition gcps_bad_token :: "string dict" where
  "gcps_bad_token =
     [(''GCPPixel_000'', ''1|x''), (''GCPLine_000'', ''1|2''),
      (''GCPX_000'', ''10.0|20.0''), (''GCPY_000'', ''5.0|6.0'')]"

text \<open>
  Every entry of \<open>tmp\<close> was stored for an entry of \<open>S\<close> with the same value, as the
  second piece of its key.
\<close>

definition from_keys :: "(string \<times> string) set \<Rightarrow> string dict \<Rightarrow> bool" where
  "from_keys S tmp =
     (\<forall>(k, v) \<in> set tmp. \<exists>key. (key, v) \<in> S \<and> item1 (py_split ''NC_GLOBAL#GDAL_'' key) = Some k)"

text \<open>
  Raw metadata with an attribute of a variable, a global attribute outside the GDAL
  names, and a geo-metadata entry.
\<close>

definition raw_metadata :: "string dict" where
  "raw_metadata =
     [(''sst#NC_GLOBAL#GDAL_units'', ''K''), (''NC_GLOBAL#title'', ''SST''),
      (''NC_GLOBAL#GDAL_NANSAT_GeoTransform'', ''0|1|0|0|0|1'')]"

text \<open>
  A reference grid with three native GCPs, a subdataset of one pixel, and the
  surroundings that open them; the names with \<^verbatim>\<open>longitude\<close> and \<^verbatim>\<open>latitude\<close> open
  grids of two by two pixels.
\<close>

definition gcp_grid :: Dataset where
  "gcp_grid =
     \<lparr>RasterXSize = 2, RasterYSize = 2,
      RasterBands = [\<lparr>Metadata_Dict = [(''standard_name'', ''sea_surface_temperature'')],
                      BandDataType = 6\<rparr>],
      Projection = '''', GCPCount = 3, GeoTransform = []\<rparr>"

definition point_grid :: Dataset where
  "point_grid =
     \<lparr>RasterXSize = 1, RasterYSize = 1,
      RasterBands = [\<lparr>Metadata_Dict = [], BandDataType = 6\<rparr>],
      Projection = '''', GCPCount = 0, GeoTransform = []\<rparr>"

definition example_env :: Env where
  "example_env =
     \<lparr>gdal_Open = map_of
        [(''sst.nc'', example_grid),
         (''point.nc'', point_grid),
         (''NETCDF:f.nc:sst'', gcp_grid),
         (''NETCDF:f.nc:longitude'', example_grid),
         (''NETCDF:f.nc:longitude_latitude'', example_grid),
         (''NETCDF:f.nc:latitude'', example_grid)],
      py_eval = eval_tuple,
      latlongWkt = ''GEOGCS[&WGS 84&]''\<rparr>"

definition example_subdatasets :: "(string \<times> string) list" where
  "example_subdatasets =
     [(''NETCDF:f.nc:sst'', ''[2x2] sst''),
      (''NETCDF:f.nc:longitude'', ''[2x2] longitude''),
      (''NETCDF:f.nc:latitude'', ''[2x2] latitude'')]"




text \<open>A band whose metadata have no \<^verbatim>\<open>standard_name\<close>.\<close>

definition band_without_name :: Band where
  "band_without_name =
     \<lparr>Metadata_Dict = [(''long_name'', ''sea surface temperature'')], BandDataType = 6\<rparr>"

section \<open>Properties\<close>

subsection \<open>Sequencing and the construction of GCPs\<close>

lemma ebind_Inr [simp]: "ebind (Inr x) f = f x"
  by (simp add: ebind_def)

lemma ebind_Inl [simp]: "ebind (Inl e) f = Inl e"
  by (simp add: ebind_def)

lemma make_gcps_closed:
  "make_gcps [ps, ls, xs, ys] js gcps =
     (if list_all (\<lambda>i. i < length xs \<and> i < length ys \<and> i < length ps \<and> i < length ls) js
      then Inr (gcps @ map (gcp_at ps ls xs ys) js) else Inl IndexError)"
proof (induction js arbitrary: gcps)
  case Nil
  show ?case by simp
next
  case (Cons i js)
  show ?case
    by (simp add: Cons.IH list_item_def gcp_at_def)
qed

lemma all_series_gcpNames:
  "all_series gcpNames m [] =
     ebind (gcp_series ''GCPPixel'' m) (\<lambda>ps.
     ebind (gcp_series ''GCPLine'' m) (\<lambda>ls.
     ebind (gcp_series ''GCPX'' m) (\<lambda>xs.
     ebind (gcp_series ''GCPY'' m) (\<lambda>ys. Inr [ps, ls, xs, ys]))))"
  by (simp add: gcpNames_def ebind_def split: sum.splits)

lemma list_all_upt_bounds:
  "list_all (\<lambda>i. i < a \<and> i < b \<and> i < n \<and> i < c) [0..<n] = (n \<le> a \<and> n \<le> b \<and> n \<le> c)"
proof (cases n)
  case 0
  then show ?thesis by simp
next
  case (Suc k)
  then show ?thesis by (auto simp: list_all_iff)
qed

text \<open>
  The whole method in one equation: the four series in turn, then either the
  \<^verbatim>\<open>IndexError\<close> of a series shorter than the pixel series, or as many GCPs as the
  pixel series has values.
\<close>

lemma add_gcps_unfold:
  "add_gcps_from_metadata self m =
     ebind (gcp_series ''GCPPixel'' m) (\<lambda>ps.
     ebind (gcp_series ''GCPLine'' m) (\<lambda>ls.
     ebind (gcp_series ''GCPX'' m) (\<lambda>xs.
     ebind (gcp_series ''GCPY'' m) (\<lambda>ys.
       if length ps \<le> length xs \<and> length ps \<le> length ys \<and> length ps \<le> length ls
       then Inr (if ps = [] then self
                 else remove_geotransform
                        (SetGCPs (map (gcp_at ps ls xs ys) [0..<length ps])
                           (repare_projection (dict_get m ''GCPProjection'' '''')) self),
                 length ps)
       else Inl IndexError))))"
  unfolding add_gcps_from_metadata_def all_series_gcpNames
  by (auto simp: ebind_def list_item_def make_gcps_closed list_all_upt_bounds split: sum.splits)

subsection \<open>Projection repair\<close>

text \<open>
  C8. \<^verbatim>\<open>repare_projection\<close> is a function of its argument alone that maps every
  \<^verbatim>\<open>|\<close> to a comma and every \<^verbatim>\<open>&\<close> to a double quote, character by character, and
  leaves every other character as it is; on \<^verbatim>\<open>A|B&C\<close> it gives \<^verbatim>\<open>A,B"C\<close>, and a string
  with neither \<^verbatim>\<open>|\<close> nor \<^verbatim>\<open>&\<close> comes back unchanged.
\<close>

theorem repare_projection_chars:
  "repare_projection s =
     map (\<lambda>c. if c = CHR ''|'' then CHR '','' else if c = CHR ''&'' then CHR 0x22 else c) s
   \<and> repare_projection ''A|B&C'' = [CHR ''A'', CHR '','', CHR ''B'', CHR 0x22, CHR ''C'']
   \<and> (CHR ''|'' \<notin> set s \<and> CHR ''&'' \<notin> set s \<longrightarrow> repare_projection s = s)"
proof (intro conjI impI)
  show eq: "repare_projection s =
     map (\<lambda>c. if c = CHR ''|'' then CHR '','' else if c = CHR ''&'' then CHR 0x22 else c) s"
    by (simp add: repare_projection_def str_replace_def)
  show "repare_projection ''A|B&C'' = [CHR ''A'', CHR '','', CHR ''B'', CHR 0x22, CHR ''C'']"
    by (simp add: repare_projection_def str_replace_def)
  assume "CHR ''|'' \<notin> set s \<and> CHR ''&'' \<notin> set s"
  then have "map (\<lambda>c. if c = CHR ''|'' then CHR '','' else if c = CHR ''&'' then CHR 0x22 else c) s
             = map (\<lambda>c. c) s"
    by (intro map_cong) auto
  with eq show "repare_projection s = s" by simp
qed

theorem repare_projection_chars_witness:
  "CHR ''|'' \<notin> set ''EPSG:4326'' \<and> CHR ''&'' \<notin> set ''EPSG:4326'' \<and>
   repare_projection ''EPSG:4326'' = ''EPSG:4326''"
  using repare_projection_chars [of "''EPSG:4326''"] by simp

subsection \<open>GCPs from metadata\<close>

text \<open>
  C7. On the geo-metadata \<^verbatim>\<open>GCPPixel_000 = "1|2"\<close>, \<^verbatim>\<open>GCPLine_000 = "1|2"\<close>,
  \<^verbatim>\<open>GCPX_000 = "10.0|20.0"\<close>, \<^verbatim>\<open>GCPY_000 = "5.0|6.0"\<close> the method installs exactly the
  two GCPs (pixel 1, line 1, x 10.0, y 5.0, z 0) and (pixel 2, line 2, x 20.0, y 6.0,
  z 0), in that order, and returns 2.
\<close>

theorem gcps_round_trip:
  "add_gcps_from_metadata self
     [(''GCPPixel_000'', ''1|2''), (''GCPLine_000'', ''1|2''),
      (''GCPX_000'', ''10.0|20.0''), (''GCPY_000'', ''5.0|6.0'')] =
   Inr (remove_geotransform (SetGCPs
          [\<lparr>GCPX = Finite 10, GCPY = Finite 5, GCPZ = Finite 0,
            GCPPixel = Finite 1, GCPLine = Finite 1\<rparr>,
           \<lparr>GCPX = Finite 20, GCPY = Finite 6, GCPZ = Finite 0,
            GCPPixel = Finite 2, GCPLine = Finite 2\<rparr>]
          '''' self), 2)"
proof -
  let ?m = "[(''GCPPixel_000'', ''1|2''), (''GCPLine_000'', ''1|2''),
      (''GCPX_000'', ''10.0|20.0''), (''GCPY_000'', ''5.0|6.0'')]"
  have p: "gcp_series ''GCPPixel'' ?m = Inr [Finite 1, Finite 2]" by code_simp
  have l: "gcp_series ''GCPLine'' ?m = Inr [Finite 1, Finite 2]" by code_simp
  have x: "gcp_series ''GCPX'' ?m = Inr [Finite 10, Finite 20]" by code_simp
  have y: "gcp_series ''GCPY'' ?m = Inr [Finite 5, Finite 6]" by code_simp
  have u: "[0..<2] = [0, Suc 0]" by (simp add: upt_rec)
  show ?thesis
    by (simp add: add_gcps_unfold p l x y gcp_at_def dict_get_def u
        repare_projection_def str_replace_def)
qed






lemma py_float_error: "py_float t = Inl e \<Longrightarrow> e = ValueError t"
  by (auto simp: py_float_def split: prod.splits if_splits option.splits)

lemma parse_values_error:
  assumes "t \<in> set toks" "t \<noteq> []" "py_float t = Inl e"
  shows "\<exists>t' \<in> set toks. parse_values toks acc = Inl (ValueError t')"
  using assms
proof (induction toks arbitrary: acc)
  case Nil
  then show ?case by simp
next
  case (Cons x toks)
  show ?case
  proof (cases "x = []")
    case True
    with Cons show ?thesis by auto
  next
    case False
    show ?thesis
    proof (cases "py_float x")
      case (Inl e')
      with False py_float_error [OF Inl] show ?thesis by simp
    next
      case (Inr v)
      with Cons.prems have "t \<in> set toks" by auto
      from Cons.IH [OF this Cons.prems(2,3)] False Inr show ?thesis by auto
    qed
  qed
qed

text \<open>
  C3, as the code has it. The method has no handler. When the lines of a series are
  all found and one of its non-empty tokens is not a number for \<^verbatim>\<open>float\<close>, the series
  raises \<^verbatim>\<open>ValueError\<close>; an exception of a series leaves the method. When the four
  series are read, the method raises \<^verbatim>\<open>IndexError\<close> if the line, X or Y series is
  shorter than the pixel series, and otherwise returns as many GCPs as the pixel series
  has values, built from the leading values of the four series: zero only when the
  pixel series is empty.
\<close>

theorem add_gcps_raises_or_counts:
  "(concat_lines gcpName m [0..<gcpLineCount gcpName m] [] = Inr s \<and>
      t \<in> set (py_split ''|'' (filter (\<lambda>c. c \<noteq> CHR '' '') (py_strip s))) \<and>
      t \<noteq> [] \<and> py_float t = Inl e \<longrightarrow>
      (\<exists>t'. gcp_series gcpName m = Inl (ValueError t')))
   \<and> (gcpName \<in> set gcpNames \<and> gcp_series gcpName m = Inl e \<longrightarrow>
        (\<exists>e'. add_gcps_from_metadata self m = Inl e'))
   \<and> (gcp_series ''GCPPixel'' m = Inr ps \<and> gcp_series ''GCPLine'' m = Inr ls \<and>
       gcp_series ''GCPX'' m = Inr xs \<and> gcp_series ''GCPY'' m = Inr ys \<longrightarrow>
        add_gcps_from_metadata self m =
          (if length ps \<le> length ls \<and> length ps \<le> length xs \<and> length ps \<le> length ys
           then Inr (if ps = [] then self
                     else remove_geotransform
                            (SetGCPs (map (gcp_at ps ls xs ys) [0..<length ps])
                               (repare_projection (dict_get m ''GCPProjection'' '''')) self),
                     length ps)
           else Inl IndexError))"
proof (intro conjI impI)
  show "\<exists>t'. gcp_series gcpName m = Inl (ValueError t')"
    if "concat_lines gcpName m [0..<gcpLineCount gcpName m] [] = Inr s \<and>
      t \<in> set (py_split ''|'' (filter (\<lambda>c. c \<noteq> CHR '' '') (py_strip s))) \<and>
      t \<noteq> [] \<and> py_float t = Inl e"
    using that parse_values_error [of t _ e "[]"] by (auto simp: gcp_series_def)
  show "\<exists>e'. add_gcps_from_metadata self m = Inl e'"
    if "gcpName \<in> set gcpNames \<and> gcp_series gcpName m = Inl e"
    using that
    by (auto simp: add_gcps_unfold gcpNames_def ebind_def split: sum.splits)
  show "add_gcps_from_metadata self m =
          (if length ps \<le> length ls \<and> length ps \<le> length xs \<and> length ps \<le> length ys
           then Inr (if ps = [] then self
                     else remove_geotransform
                            (SetGCPs (map (gcp_at ps ls xs ys) [0..<length ps])
                               (repare_projection (dict_get m ''GCPProjection'' '''')) self),
                     length ps)
           else Inl IndexError)"
    if "gcp_series ''GCPPixel'' m = Inr ps \<and> gcp_series ''GCPLine'' m = Inr ls \<and>
       gcp_series ''GCPX'' m = Inr xs \<and> gcp_series ''GCPY'' m = Inr ys"
    using that by (auto simp: add_gcps_unfold)
qed

theorem add_gcps_raises_or_counts_witness:
  "concat_lines ''GCPPixel'' gcps_bad_token [0..<gcpLineCount ''GCPPixel'' gcps_bad_token] [] = Inr ''1|x''
   \<and> ''x'' \<in> set (py_split ''|'' (filter (\<lambda>c. c \<noteq> CHR '' '') (py_strip ''1|x'')))
   \<and> py_float ''x'' = Inl (ValueError ''x'')
   \<and> ''GCPPixel'' \<in> set gcpNames
   \<and> gcp_series ''GCPPixel'' gcps_bad_token = Inl (ValueError ''x'')
   \<and> add_gcps_from_metadata example_vrt gcps_bad_token = Inl (ValueError ''x'')
   \<and> gcp_series ''GCPPixel'' gcps_short_line = Inr [Finite 1, Finite 2]
   \<and> gcp_series ''GCPLine'' gcps_short_line = Inr [Finite 1]
   \<and> gcp_series ''GCPX'' gcps_short_line = Inr [Finite 10, Finite 20]
   \<and> gcp_series ''GCPY'' gcps_short_line = Inr [Finite 5, Finite 6]
   \<and> add_gcps_from_metadata example_vrt gcps_short_line = Inl IndexError"
proof -
  have a: "concat_lines ''GCPPixel'' gcps_bad_token [0..<gcpLineCount ''GCPPixel'' gcps_bad_token] [] = Inr ''1|x''"
    by code_simp
  have b: "''x'' \<in> set (py_split ''|'' (filter (\<lambda>c. c \<noteq> CHR '' '') (py_strip ''1|x'')))"
    by code_simp
  have c: "py_float ''x'' = Inl (ValueError ''x'')" by code_simp
  have d: "''GCPPixel'' \<in> set gcpNames" by (simp add: gcpNames_def)
  have e: "gcp_series ''GCPPixel'' gcps_bad_token = Inl (ValueError ''x'')" by code_simp
  have p: "gcp_series ''GCPPixel'' gcps_short_line = Inr [Finite 1, Finite 2]" by code_simp
  have l: "gcp_series ''GCPLine'' gcps_short_line = Inr [Finite 1]" by code_simp
  have x: "gcp_series ''GCPX'' gcps_short_line = Inr [Finite 10, Finite 20]" by code_simp
  have y: "gcp_series ''GCPY'' gcps_short_line = Inr [Finite 5, Finite 6]" by code_simp
  have f: "add_gcps_from_metadata example_vrt gcps_bad_token = Inl (ValueError ''x'')"
    using add_gcps_raises_or_counts [of "''GCPPixel''" gcps_bad_token "''1|x''" "''x''" "ValueError ''x''" example_vrt]
      a b c d e
    by (auto simp: add_gcps_unfold)
  have g: "add_gcps_from_metadata example_vrt gcps_short_line = Inl IndexError"
    using add_gcps_raises_or_counts [of _ gcps_short_line _ _ _ example_vrt "[Finite 1, Finite 2]" "[Finite 1]"
        "[Finite 10, Finite 20]" "[Finite 5, Finite 6]"] p l x y
    by simp
  from a b c d e f g p l x y show ?thesis by simp
qed

text \<open>
  The statement of C3 that such metadata give zero GCPs fails: a short line series
  raises \<^verbatim>\<open>IndexError\<close>, a token \<^verbatim>\<open>x\<close> raises \<^verbatim>\<open>ValueError\<close>, and a short pixel
  series gives one GCP.
\<close>

theorem add_gcps_zero_counterexample:
  "add_gcps_from_metadata example_vrt gcps_short_line = Inl IndexError
   \<and> add_gcps_from_metadata example_vrt gcps_bad_token = Inl (ValueError ''x'')
   \<and> snd (projr (add_gcps_from_metadata example_vrt gcps_short_pixel)) = 1"
  by code_simp

subsection \<open>Band descriptors\<close>

lemma map_of_rm_step:
  "k \<noteq> rm \<Longrightarrow> map_of (if dict_has d rm then AList.delete rm d else d) k = map_of d k"
  by (simp add: dict_has_def)

lemma map_of_rm_all:
  "k \<notin> set rms \<Longrightarrow>
   map_of (foldl (\<lambda>d rm. if dict_has d rm then AList.delete rm d else d) d rms) k = map_of d k"
proof (induction rms arbitrary: d)
  case Nil
  show ?case by simp
next
  case (Cons rm rms)
  then have "k \<noteq> rm" and "k \<notin> set rms" by auto
  then show ?case
    using Cons.IH [of "if dict_has d rm then AList.delete rm d else d"]
    by (simp add: map_of_rm_step)
qed

lemma wkv_not_removed: "''wkv'' \<notin> set rmMetadatas"
  by (simp add: rmMetadatas_def)

lemma band_desc_wkv:
  "map_of (dst (band_desc fileName iBand subBand)) ''wkv'' =
     Some (dict_get (Metadata_Dict subBand) ''standard_name'' '''')"
proof -
  define bm where "bm = (if dict_has (Metadata_Dict subBand) ''PixelFunctionType''
             then AList.delete ''PixelFunctionType'' (Metadata_Dict subBand)
             else Metadata_Dict subBand)"
  define dst1 where "dst1 = AList.update ''wkv'' (dict_get bm ''standard_name'' '''') bm"
  define bandName0 where "bandName0 = dict_get dst1 ''NETCDF_VARNAME'' ''''"
  define bandName where
    "bandName = (if length bandName0 = 0 then dict_get dst1 ''dods_variable'' '''' else bandName0)"
  define dst2 where
    "dst2 = (if length bandName > 0 then AList.update ''name'' bandName dst1 else dst1)"
  have d: "dst (band_desc fileName iBand subBand) =
        foldl (\<lambda>d rmMetadata. if dict_has d rmMetadata then AList.delete rmMetadata d else d)
          dst2 rmMetadatas"
    unfolding band_desc_def Let_def dst2_def bandName_def bandName0_def dst1_def bm_def
    by simp
  have sn: "map_of bm ''standard_name'' = map_of (Metadata_Dict subBand) ''standard_name''"
    unfolding bm_def by (rule map_of_rm_step) simp
  have "map_of dst1 ''wkv'' = Some (dict_get bm ''standard_name'' '''')"
    unfolding dst1_def by (simp add: update_conv')
  then have "map_of dst2 ''wkv'' = Some (dict_get bm ''standard_name'' '''')"
    unfolding dst2_def by (simp add: update_conv')
  moreover have "map_of (dst (band_desc fileName iBand subBand)) ''wkv'' = map_of dst2 ''wkv''"
    unfolding d by (rule map_of_rm_all [OF wkv_not_removed])
  ultimately have "map_of (dst (band_desc fileName iBand subBand)) ''wkv'' =
             Some (dict_get bm ''standard_name'' '''')"
    by simp
  then show ?thesis
    by (simp add: dict_get_def sn)
qed

text \<open>
  C5, as the code has it. Line 92 always assigns \<^verbatim>\<open>dst['wkv']\<close>, with the default
  \<^verbatim>\<open>''\<close>: for every band whose raw metadata have no \<^verbatim>\<open>standard_name\<close> key, the
  destination descriptor has the key \<^verbatim>\<open>wkv\<close> with the empty string as its value.
\<close>

theorem band_wkv_empty:
  "map_of (Metadata_Dict subBand) ''standard_name'' = None \<Longrightarrow>
   map_of (dst (band_desc fileName iBand subBand)) ''wkv'' = Some ''''"
  by (simp add: band_desc_wkv dict_get_def)

theorem band_wkv_empty_witness:
  "map_of (Metadata_Dict band_without_name) ''standard_name'' = None \<and>
   map_of (dst (band_desc ''sst.nc'' 0 band_without_name)) ''wkv'' = Some ''''"
proof -
  have h: "map_of (Metadata_Dict band_without_name) ''standard_name'' = None"
    by (simp add: band_without_name_def)
  from h band_wkv_empty [OF h] show ?thesis by simp
qed

text \<open>
  The statement of C5 that the field is absent fails on a band with the one entry
  \<^verbatim>\<open>long_name\<close>: its descriptor ends with the entry \<^verbatim>\<open>wkv\<close> of value \<^verbatim>\<open>''\<close>.
\<close>

theorem band_wkv_absent_counterexample:
  "map_of (Metadata_Dict band_without_name) ''standard_name'' = None \<and>
   dst (band_desc ''sst.nc'' 0 band_without_name) =
     [(''long_name'', ''sea surface temperature''), (''wkv'', '''')]"
  by code_simp

subsection \<open>Metadata normalisation\<close>

lemma py_split_nonempty: "py_split sep s \<noteq> []"
  by (induction sep s rule: py_split.induct) (auto split: list.splits)

lemma py_split_head:
  "py_split sep s = p # ps \<Longrightarrow>
   (ps = [] \<and> s = p) \<or> (\<exists>t. s = p @ sep @ t \<and> py_split sep t = ps)"
proof (induction sep s arbitrary: p ps rule: py_split.induct)
  case (1 sep)
  then show ?case by simp
next
  case (2 sep c cs)
  show ?case
  proof (cases "sep \<noteq> [] \<and> prefix sep (c # cs)")
    case True
    then have "c # cs = sep @ drop (length sep) (c # cs)"
      by (metis append_eq_conv_conj prefixE)
    moreover from True "2.prems"
    have "p = []" and "py_split sep (drop (length sep) (c # cs)) = ps"
      by auto
    ultimately show ?thesis by auto
  next
    case False
    obtain p' ps' where sp: "py_split sep cs = p' # ps'"
      using py_split_nonempty [of sep cs] by (cases "py_split sep cs") auto
    with False "2.prems" have p: "p = c # p'" and ps: "ps = ps'"
      by auto
    from "2.IH"(2) [OF False sp] p ps show ?thesis by auto
  qed
qed

lemma py_split_item1:
  assumes "item1 (py_split sep s) = Some k"
  shows "\<exists>pre post. s = pre @ sep @ k @ post"
proof -
  from assms obtain p rest where sp: "py_split sep s = p # k # rest"
    by (cases "py_split sep s" rule: item1.cases) auto
  from py_split_head [OF sp] obtain t where t: "s = p @ sep @ t" "py_split sep t = k # rest"
    by auto
  from py_split_head [OF t(2)] have "\<exists>post. t = k @ post" by auto
  with t(1) show ?thesis by auto
qed

lemma py_split_item1_sublist:
  "item1 (py_split sep s) = Some k \<Longrightarrow> sublist sep s"
  using py_split_item1 [of sep s k] by (auto simp: sublist_def)

lemma set_update_subset: "set (AList.update k v al) \<subseteq> insert (k, v) (set al)"
  by (induction al) auto

lemma set_delete_subset: "set (AList.delete k al) \<subseteq> set al"
  by (auto simp: AList.delete_eq)

lemma from_keys_mono:
  "from_keys S tmp \<Longrightarrow> S \<subseteq> T \<Longrightarrow> set tmp' \<subseteq> set tmp \<Longrightarrow> from_keys T tmp'"
  unfolding from_keys_def by fast

lemma from_keys_update:
  assumes "from_keys S tmp" "item1 (py_split ''NC_GLOBAL#GDAL_'' key) = Some k"
  shows "from_keys (insert (key, v) S) (AList.update k v tmp)"
  unfolding from_keys_def
proof (intro ballI, clarify)
  fix a b assume "(a, b) \<in> set (AList.update k v tmp)"
  with set_update_subset [of k v tmp] have "(a, b) = (k, v) \<or> (a, b) \<in> set tmp" by auto
  then show "\<exists>key'. (key', b) \<in> insert (key, v) S \<and>
                  item1 (py_split ''NC_GLOBAL#GDAL_'' key') = Some a"
  proof
    assume "(a, b) = (k, v)"
    with assms(2) show ?thesis by auto
  next
    assume "(a, b) \<in> set tmp"
    with assms(1) show ?thesis unfolding from_keys_def by fast
  qed
qed

lemma normalize_key_from_keys:
  assumes "from_keys S (fst st)"
  shows "from_keys (insert kv S) (fst (normalize_key st kv))"
proof -
  obtain tmp geo where st: "st = (tmp, geo)" by (cases st)
  obtain key v where kv: "kv = (key, v)" by (cases kv)
  from assms st have inv: "from_keys S tmp" by simp
  show ?thesis
  proof (cases "item1 (py_split ''NC_GLOBAL#GDAL_'' key)")
    case None
    then have "fst (normalize_key st kv) = tmp"
      by (simp add: normalize_key_def st kv)
    with inv show ?thesis
      by (auto intro: from_keys_mono)
  next
    case (Some k)
    have up: "from_keys (insert kv S) (AList.update k v tmp)"
      unfolding kv using inv Some by (rule from_keys_update)
    have "set (fst (normalize_key st kv)) \<subseteq> set (AList.update k v tmp)"
      using set_delete_subset [of k "AList.update k v tmp"]
      by (auto simp: normalize_key_def st kv Some Let_def split: option.splits)
    with up show ?thesis
      by (auto intro: from_keys_mono)
  qed
qed

lemma foldl_normalize_from_keys:
  "from_keys S (fst st) \<Longrightarrow> from_keys (S \<union> set md) (fst (foldl normalize_key st md))"
proof (induction md arbitrary: S st)
  case Nil
  then show ?case by simp
next
  case (Cons kv md)
  from normalize_key_from_keys [OF Cons.prems]
  have "from_keys (insert kv S) (fst (normalize_key st kv))" .
  from Cons.IH [OF this] show ?case by simp
qed

lemma normalize_metadata_from_keys:
  "from_keys (set md) (fst (normalize_metadata md))"
  using foldl_normalize_from_keys [of "{}" "([], [])" md]
  by (simp add: normalize_metadata_def from_keys_def)

text \<open>
  C6, as the code has it. The test of line 20 is \<^verbatim>\<open>split('NC_GLOBAL#GDAL_')[1]\<close>, which
  succeeds when the literal occurs anywhere in the key. Every entry of the normalised
  primary mapping has the value of an input entry whose key contains the literal
  \<^verbatim>\<open>NC_GLOBAL#GDAL_\<close>, and its key is the piece of that input key between the first
  occurrence of the literal and the next; an input key that does not contain the
  literal leaves both mappings as they are.
\<close>

theorem normalized_keys_from_literal:
  "((k, v) \<in> set (fst (normalize_metadata md)) \<longrightarrow>
      (\<exists>key pre post. (key, v) \<in> set md \<and> key = pre @ ''NC_GLOBAL#GDAL_'' @ k @ post \<and>
         item1 (py_split ''NC_GLOBAL#GDAL_'' key) = Some k))
   \<and> (\<not> sublist ''NC_GLOBAL#GDAL_'' key \<longrightarrow> normalize_key st (key, val) = st)"
proof (intro conjI impI)
  assume "(k, v) \<in> set (fst (normalize_metadata md))"
  with normalize_metadata_from_keys [of md]
  obtain key where key: "(key, v) \<in> set md" "item1 (py_split ''NC_GLOBAL#GDAL_'' key) = Some k"
    unfolding from_keys_def by fast
  from py_split_item1 [OF key(2)] key
  show "\<exists>key pre post. (key, v) \<in> set md \<and> key = pre @ ''NC_GLOBAL#GDAL_'' @ k @ post \<and>
         item1 (py_split ''NC_GLOBAL#GDAL_'' key) = Some k"
    by blast
next
  assume "\<not> sublist ''NC_GLOBAL#GDAL_'' key"
  with py_split_item1_sublist [of "''NC_GLOBAL#GDAL_''" key]
  have "item1 (py_split ''NC_GLOBAL#GDAL_'' key) = None"
    by (cases "item1 (py_split ''NC_GLOBAL#GDAL_'' key)") auto
  then show "normalize_key st (key, val) = st"
    by (cases st) (simp add: normalize_key_def)
qed

theorem normalized_keys_from_literal_witness:
  "(''units'', ''K'') \<in> set (fst (normalize_metadata raw_metadata))
   \<and> \<not> sublist ''NC_GLOBAL#GDAL_'' ''NC_GLOBAL#title''
   \<and> (\<exists>key pre post. (key, ''K'') \<in> set raw_metadata \<and>
          key = pre @ ''NC_GLOBAL#GDAL_'' @ ''units'' @ post)
   \<and> normalize_key ([], []) (''NC_GLOBAL#title'', ''SST'') = ([], [])"
proof -
  have a: "(''units'', ''K'') \<in> set (fst (normalize_metadata raw_metadata))" by code_simp
  have b: "\<not> sublist ''NC_GLOBAL#GDAL_'' ''NC_GLOBAL#title''" by code_simp
  from normalized_keys_from_literal [of "''units''" "''K''" raw_metadata "''NC_GLOBAL#title''"
      "([], [])" "''SST''"] a b
  show ?thesis by blast
qed

text \<open>
  The statement of C6 with the literal as a prefix fails: the key
  \<^verbatim>\<open>sst#NC_GLOBAL#GDAL_units\<close> does not start with the literal, and its entry is in the
  normalised mapping under \<^verbatim>\<open>units\<close>.
\<close>

theorem normalized_keys_counterexample:
  "fst (normalize_metadata raw_metadata) = [(''units'', ''K'')]
   \<and> \<not> prefix ''NC_GLOBAL#GDAL_'' ''sst#NC_GLOBAL#GDAL_units''
   \<and> (''sst#NC_GLOBAL#GDAL_units'', ''K'') \<in> set raw_metadata"
  by code_simp

subsection \<open>The scan of the subdatasets and the constructor\<close>

lemma scan_file_error:
  "scan_file env st f = Inl e \<Longrightarrow> e = AttributeError ''RasterXSize''"
  by (auto simp: scan_file_def Let_def split: option.splits)

lemma scan_files_error:
  "scan_files env st fs = Inl e \<Longrightarrow> e = AttributeError ''RasterXSize''"
proof (induction fs arbitrary: st)
  case Nil
  then show ?case by simp
next
  case (Cons f fs)
  show ?case
  proof (cases "scan_file env st f")
    case (Inl e')
    with Cons.prems scan_file_error [OF Inl] show ?thesis by simp
  next
    case (Inr st1)
    with Cons.prems have "scan_files env st1 fs = Inl e" by simp
    then show ?thesis by (rule Cons.IH)
  qed
qed

lemma scan_file_opened:
  "gdal_Open env f = Some d \<Longrightarrow> \<exists>st'. scan_file env st f = Inr st'"
  by (simp add: scan_file_def Let_def)

lemma scan_files_opened:
  "\<forall>f \<in> set fs. gdal_Open env f \<noteq> None \<Longrightarrow> \<exists>st'. scan_files env st fs = Inr st'"
proof (induction fs arbitrary: st)
  case Nil
  show ?case by simp
next
  case (Cons f fs)
  then obtain d where "gdal_Open env f = Some d" by auto
  from scan_file_opened [OF this] obtain st1 where "scan_file env st f = Inr st1" by blast
  moreover from Cons obtain st' where "scan_files env st1 fs = Inr st'" by fastforce
  ultimately show ?case by simp
qed

lemma choose_first_no_grid:
  "\<not> has_grid d \<Longrightarrow> choose_first st d = st"
  by (auto simp: choose_first_def has_grid_def)

lemma scan_file_first:
  assumes "scan_file env st f = Inr st'"
  obtains d where "gdal_Open env f = Some d"
    and "firstSubDataset st' = firstSubDataset (choose_first st d)"
    and "projection st' = projection (choose_first st d)"
    and "firstXSize st' = firstXSize (choose_first st d)"
    and "firstYSize st' = firstYSize (choose_first st d)"
  using assms by (auto simp: scan_file_def Let_def split: option.splits if_splits)

lemma scan_file_first_None:
  assumes "scan_file env st f = Inr st'" "firstSubDataset st = None"
    "\<forall>d. gdal_Open env f = Some d \<longrightarrow> \<not> has_grid d"
  shows "firstSubDataset st' = None"
proof -
  from assms(1) obtain d where d: "gdal_Open env f = Some d"
    "firstSubDataset st' = firstSubDataset (choose_first st d)"
    by (rule scan_file_first)
  with assms(3) have "\<not> has_grid d" by simp
  with d(2) assms(2) show ?thesis by (simp add: choose_first_no_grid)
qed

lemma scan_files_first_None:
  assumes "scan_files env st fs = Inr st'" "firstSubDataset st = None"
    "\<forall>f \<in> set fs. \<forall>d. gdal_Open env f = Some d \<longrightarrow> \<not> has_grid d"
  shows "firstSubDataset st' = None"
  using assms
proof (induction fs arbitrary: st)
  case Nil
  then show ?case by simp
next
  case (Cons f fs)
  from Cons.prems(1) obtain st1 where st1: "scan_file env st f = Inr st1"
    "scan_files env st1 fs = Inr st'"
    by (cases "scan_file env st f") auto
  from scan_file_first_None [OF st1(1) Cons.prems(2)] Cons.prems(3)
  have "firstSubDataset st1 = None" by simp
  from Cons.IH [OF st1(2) this] Cons.prems(3) show ?case by simp
qed

lemma Mapper_init_scan:
  "Mapper_init env fileName subDatasets md =
     ebind (scan_files env scan_init (fileNames_of fileName subDatasets)) (\<lambda>st.
       case firstSubDataset st of
         None \<Rightarrow> Inl (UnboundLocalError ''firstSubDataset'')
       | Some first \<Rightarrow>
           (case projection st of
              None \<Rightarrow> Inl (UnboundLocalError ''projection'')
            | Some projection0 \<Rightarrow>
                resolve_geolocation env first (snd (normalize_metadata md))
                  (xDatasetSource st) (yDatasetSource st)
                  (resolve_projection env projection0 (snd (normalize_metadata md))
                    (create_bands (metaDict st) (VRT_init first (fst (normalize_metadata md)))))))"
  by (simp only: Mapper_init_def Let_def case_prod_beta)

text \<open>
  C4, as the code has it. The constructor has no check for a missing grid. When no
  subdataset of the file list has both sizes above one, \<^verbatim>\<open>firstSubDataset\<close> is never
  assigned and line 108 raises \<^verbatim>\<open>UnboundLocalError\<close> for it, unless a subdataset
  could not be opened, which raises \<^verbatim>\<open>AttributeError\<close> in the loop. Either way the
  constructor raises and no raster model is returned.
\<close>

theorem no_grid_fails:
  assumes "\<forall>f \<in> set (fileNames_of fileName subDatasets).
             \<forall>d. gdal_Open env f = Some d \<longrightarrow> \<not> has_grid d"
  shows "(Mapper_init env fileName subDatasets md = Inl (UnboundLocalError ''firstSubDataset'')
          \<or> Mapper_init env fileName subDatasets md = Inl (AttributeError ''RasterXSize''))
       \<and> ((\<forall>f \<in> set (fileNames_of fileName subDatasets). gdal_Open env f \<noteq> None) \<longrightarrow>
            Mapper_init env fileName subDatasets md = Inl (UnboundLocalError ''firstSubDataset''))"
proof -
  let ?fs = "fileNames_of fileName subDatasets"
  have init: "firstSubDataset scan_init = None" by (simp add: scan_init_def)
  have ok: "Mapper_init env fileName subDatasets md = Inl (UnboundLocalError ''firstSubDataset'')"
    if "scan_files env scan_init ?fs = Inr st" for st
  proof -
    from scan_files_first_None [OF that init assms] have "firstSubDataset st = None" .
    with that show ?thesis by (simp add: Mapper_init_scan)
  qed
  have bad: "Mapper_init env fileName subDatasets md = Inl (AttributeError ''RasterXSize'')"
    if "scan_files env scan_init ?fs = Inl e" for e
    using that scan_files_error [OF that] by (simp add: Mapper_init_scan)
  show ?thesis
  proof (intro conjI impI)
    show "Mapper_init env fileName subDatasets md = Inl (UnboundLocalError ''firstSubDataset'')
          \<or> Mapper_init env fileName subDatasets md = Inl (AttributeError ''RasterXSize'')"
      using ok bad by (cases "scan_files env scan_init ?fs") auto
    assume "\<forall>f \<in> set ?fs. gdal_Open env f \<noteq> None"
    from scan_files_opened [OF this] obtain st where "scan_files env scan_init ?fs = Inr st"
      by blast
    then show "Mapper_init env fileName subDatasets md = Inl (UnboundLocalError ''firstSubDataset'')"
      by (rule ok)
  qed
qed

theorem no_grid_fails_witness:
  "fileNames_of ''point.nc'' [] = [''point.nc'']
   \<and> gdal_Open example_env ''point.nc'' = Some point_grid
   \<and> \<not> has_grid point_grid
   \<and> Mapper_init example_env ''point.nc'' [] [] = Inl (UnboundLocalError ''firstSubDataset'')"
proof -
  have n: "fileNames_of ''point.nc'' [] = [''point.nc'']"
    by (simp add: fileNames_of_def)
  have o: "gdal_Open example_env ''point.nc'' = Some point_grid"
    by (simp add: example_env_def)
  have g: "\<not> has_grid point_grid" by (simp add: has_grid_def point_grid_def)
  have a: "\<forall>f \<in> set (fileNames_of ''point.nc'' []).
      \<forall>d. gdal_Open example_env f = Some d \<longrightarrow> \<not> has_grid d"
    using o g by (simp add: fileNames_of_def)
  have b: "\<forall>f \<in> set (fileNames_of ''point.nc'' []). gdal_Open example_env f \<noteq> None"
    using o by (simp add: fileNames_of_def)
  from no_grid_fails [OF a, of "[]"] b
  have "Mapper_init example_env ''point.nc'' [] [] = Inl (UnboundLocalError ''firstSubDataset'')"
    by blast
  with n o g show ?thesis by blast
qed

text \<open>
  The statement of C4 that the error identifies the missing grid fails: on a file of
  one pixel the exception is the \<^verbatim>\<open>UnboundLocalError\<close> of the variable
  \<^verbatim>\<open>firstSubDataset\<close>.
\<close>

theorem no_grid_error_counterexample:
  "\<not> has_grid point_grid
   \<and> gdal_Open example_env ''point.nc'' = Some point_grid
   \<and> Mapper_init example_env ''point.nc'' [] [] = Inl (UnboundLocalError ''firstSubDataset'')"
  by code_simp

lemma scan_file_projection:
  assumes "scan_file env st f = Inr st'" "firstSubDataset st \<noteq> None \<longrightarrow> projection st \<noteq> None"
  shows "firstSubDataset st' \<noteq> None \<longrightarrow> projection st' \<noteq> None"
proof -
  from assms(1) obtain d where d:
    "firstSubDataset st' = firstSubDataset (choose_first st d)"
    "projection st' = projection (choose_first st d)"
    by (rule scan_file_first)
  with assms(2) show ?thesis
    by (auto simp: choose_first_def split: if_splits)
qed

lemma scan_files_projection:
  assumes "scan_files env st fs = Inr st'" "firstSubDataset st \<noteq> None \<longrightarrow> projection st \<noteq> None"
  shows "firstSubDataset st' \<noteq> None \<longrightarrow> projection st' \<noteq> None"
  using assms
proof (induction fs arbitrary: st)
  case Nil
  then show ?case by simp
next
  case (Cons f fs)
  from Cons.prems(1) obtain st1 where st1: "scan_file env st f = Inr st1"
    "scan_files env st1 fs = Inr st'"
    by (cases "scan_file env st f") auto
  from scan_file_projection [OF st1(1) Cons.prems(2)]
  have "firstSubDataset st1 \<noteq> None \<longrightarrow> projection st1 \<noteq> None" .
  from Cons.IH [OF st1(2) this] show ?case .
qed

lemma resolve_geolocation_array:
  assumes "xs \<noteq> []" "ys \<noteq> []" "0 < GCPCount first"
  shows "resolve_geolocation env first geo xs ys self = Inr (add_geolocationArray xs ys self)"
  using assms by (simp add: resolve_geolocation_def)

text \<open>
  C1, as the code has it. Line 131 installs the geolocation array whenever both
  sources were recorded, whatever the number of native GCPs. For every raster whose
  reference grid has native GCPs and for which an X and a Y source were recorded, the
  constructor returns a container with the geolocation-array reference of these two
  sources; it reads no GCPs from the metadata and leaves the geotransform of the
  reference grid as it is.
\<close>

theorem geolocation_array_over_native_gcps:
  assumes "scan_files env scan_init (fileNames_of fileName subDatasets) = Inr st"
    and "firstSubDataset st = Some first" and "0 < GCPCount first"
    and "xDatasetSource st \<noteq> []" and "yDatasetSource st \<noteq> []"
  shows "\<exists>v. Mapper_init env fileName subDatasets md = Inr v
           \<and> geolocationArray v = Some (xDatasetSource st, yDatasetSource st)
           \<and> vrtGCPs v = [] \<and> vrtGeoTransform v = GeoTransform first"
proof -
  have "firstSubDataset scan_init \<noteq> None \<longrightarrow> projection scan_init \<noteq> None"
    by (simp add: scan_init_def)
  from scan_files_projection [OF assms(1) this] assms(2)
  obtain p where p: "projection st = Some p" by auto
  let ?self = "resolve_projection env p (snd (normalize_metadata md))
                 (create_bands (metaDict st) (VRT_init first (fst (normalize_metadata md))))"
  have "Mapper_init env fileName subDatasets md =
        Inr (add_geolocationArray (xDatasetSource st) (yDatasetSource st) ?self)"
    by (simp add: Mapper_init_scan assms(1,2) p resolve_geolocation_array [OF assms(4,5,3)])
  moreover have "vrtGCPs ?self = []" "vrtGeoTransform ?self = GeoTransform first"
    by (simp_all add: resolve_projection_def Let_def SetProjection_def create_bands_def VRT_init_def)
  ultimately show ?thesis
    by (simp add: add_geolocationArray_def)
qed

theorem geolocation_array_over_native_gcps_witness:
  "scan_files example_env scan_init (fileNames_of ''f.nc'' example_subdatasets) =
     Inr (projr (scan_files example_env scan_init (fileNames_of ''f.nc'' example_subdatasets)))
   \<and> firstSubDataset
        (projr (scan_files example_env scan_init (fileNames_of ''f.nc'' example_subdatasets))) =
      Some gcp_grid
   \<and> 0 < GCPCount gcp_grid
   \<and> (\<exists>v. Mapper_init example_env ''f.nc'' example_subdatasets [] = Inr v
         \<and> geolocationArray v = Some (''NETCDF:f.nc:longitude'', ''NETCDF:f.nc:latitude''))"
proof -
  let ?S = "scan_files example_env scan_init (fileNames_of ''f.nc'' example_subdatasets)"
  have a: "?S = Inr (projr ?S)" by code_simp
  have b: "firstSubDataset (projr ?S) = Some gcp_grid" by code_simp
  have c: "0 < GCPCount gcp_grid" by (simp add: gcp_grid_def)
  have x: "xDatasetSource (projr ?S) = ''NETCDF:f.nc:longitude''" by code_simp
  have y: "yDatasetSource (projr ?S) = ''NETCDF:f.nc:latitude''" by code_simp
  have x': "xDatasetSource (projr ?S) \<noteq> []" by (simp add: x)
  have y': "yDatasetSource (projr ?S) \<noteq> []" by (simp add: y)
  from geolocation_array_over_native_gcps [OF a b c x' y', of "[]"]
  have "\<exists>v. Mapper_init example_env ''f.nc'' example_subdatasets [] = Inr v
         \<and> geolocationArray v = Some (''NETCDF:f.nc:longitude'', ''NETCDF:f.nc:latitude'')"
    unfolding x y by blast
  with a b c show ?thesis by blast
qed

text \<open>
  The statement of C1 that the geolocation array is not installed fails on a
  reference grid with three native GCPs and the subdatasets \<^verbatim>\<open>longitude\<close> and
  \<^verbatim>\<open>latitude\<close>.
\<close>

theorem native_gcps_counterexample:
  "gdal_Open example_env ''NETCDF:f.nc:sst'' = Some gcp_grid
   \<and> GCPCount gcp_grid = 3
   \<and> map_sum id geolocationArray (Mapper_init example_env ''f.nc'' example_subdatasets []) =
       Inr (Some (''NETCDF:f.nc:longitude'', ''NETCDF:f.nc:latitude''))"
  by code_simp















end
